theory Spec2Isabelle
  imports Complex_Main
begin

section \<open>JavaScript values used by the server\<close>

text \<open>
  A JavaScript Number is NaN, an infinity or a finite double. A finite double is modelled
  by the real number it denotes; a result whose magnitude reaches the overflow threshold
  of binary64 (round to nearest, ties to even: \<open>2^1024 - 2^970\<close>) becomes an infinity, as
  in the source language, and the functions of \<open>Math\<close> are the real functions they
  approximate. Rounding to 53 bits and the sign of zero are not modelled. The theorems
  about the store query, the loader and the ZIP lookup depend only on whether a number is
  NaN, infinite or finite and on the order of numbers, never on a rounded digit. The
  theorems about \<open>haversineMeters\<close> itself are statements of this exact arithmetic:
  where they give the distance 0, the doubles of the code give 0 or a distance within
  rounding of it. Strings are ASCII.
\<close>

datatype jsnum = NaN | NegInf | Fin real | PosInf

definition DBL_LIMIT :: real where
  "DBL_LIMIT = 2 ^ 1024 - 2 ^ 970"

definition to_number :: "real \<Rightarrow> jsnum" where
  "to_number r = (if DBL_LIMIT \<le> r then PosInf else if r \<le> - DBL_LIMIT then NegInf else Fin r)"

fun isFinite :: "jsnum \<Rightarrow> bool" where
  "isFinite (Fin r) = True"
| "isFinite n = False"

fun js_neg :: "jsnum \<Rightarrow> jsnum" where
  "js_neg NaN = NaN"
| "js_neg NegInf = PosInf"
| "js_neg PosInf = NegInf"
| "js_neg (Fin r) = Fin (- r)"

fun js_add :: "jsnum \<Rightarrow> jsnum \<Rightarrow> jsnum" where
  "js_add NaN y = NaN"
| "js_add x NaN = NaN"
| "js_add PosInf NegInf = NaN"
| "js_add NegInf PosInf = NaN"
| "js_add PosInf y = PosInf"
| "js_add NegInf y = NegInf"
| "js_add x PosInf = PosInf"
| "js_add x NegInf = NegInf"
| "js_add (Fin a) (Fin b) = to_number (a + b)"

definition js_sub :: "jsnum \<Rightarrow> jsnum \<Rightarrow> jsnum" where
  "js_sub x y = js_add x (js_neg y)"

text \<open>The sign of an infinite product or quotient: positive, negative, or none (NaN).\<close>

definition signed_inf :: "real \<Rightarrow> jsnum" where
  "signed_inf s = (if 0 < s then PosInf else if s < 0 then NegInf else NaN)"

fun js_sign :: "jsnum \<Rightarrow> real" where
  "js_sign NaN = 0"
| "js_sign NegInf = - 1"
| "js_sign PosInf = 1"
| "js_sign (Fin r) = sgn r"

fun js_mul :: "jsnum \<Rightarrow> jsnum \<Rightarrow> jsnum" where
  "js_mul NaN y = NaN"
| "js_mul x NaN = NaN"
| "js_mul (Fin a) (Fin b) = to_number (a * b)"
| "js_mul x y = signed_inf (js_sign x * js_sign y)"

fun js_div :: "jsnum \<Rightarrow> jsnum \<Rightarrow> jsnum" where
  "js_div NaN y = NaN"
| "js_div x NaN = NaN"
| "js_div (Fin a) (Fin b) = (if b = 0 then signed_inf a else to_number (a / b))"
| "js_div (Fin a) y = Fin 0"
| "js_div x (Fin b) = (if b < 0 then js_neg x else x)"
| "js_div x y = NaN"

fun js_le :: "jsnum \<Rightarrow> jsnum \<Rightarrow> bool" where
  "js_le NaN y = False"
| "js_le x NaN = False"
| "js_le NegInf y = True"
| "js_le x PosInf = True"
| "js_le (Fin a) (Fin b) = (a \<le> b)"
| "js_le x y = False"

fun js_lt :: "jsnum \<Rightarrow> jsnum \<Rightarrow> bool" where
  "js_lt NaN y = False"
| "js_lt x NaN = False"
| "js_lt PosInf y = False"
| "js_lt x NegInf = False"
| "js_lt (Fin a) (Fin b) = (a < b)"
| "js_lt x y = True"

definition Math_min :: "jsnum \<Rightarrow> jsnum \<Rightarrow> jsnum" where
  "Math_min x y = (if x = NaN \<or> y = NaN then NaN else if js_le x y then x else y)"

definition Math_max :: "jsnum \<Rightarrow> jsnum \<Rightarrow> jsnum" where
  "Math_max x y = (if x = NaN \<or> y = NaN then NaN else if js_le x y then y else x)"

fun Math_sin :: "jsnum \<Rightarrow> jsnum" where
  "Math_sin (Fin r) = Fin (sin r)"
| "Math_sin x = NaN"

fun Math_cos :: "jsnum \<Rightarrow> jsnum" where
  "Math_cos (Fin r) = Fin (cos r)"
| "Math_cos x = NaN"

fun Math_sqrt :: "jsnum \<Rightarrow> jsnum" where
  "Math_sqrt (Fin r) = (if r < 0 then NaN else Fin (sqrt r))"
| "Math_sqrt PosInf = PosInf"
| "Math_sqrt x = NaN"

fun Math_atan2 :: "jsnum \<Rightarrow> jsnum \<Rightarrow> jsnum" where
  "Math_atan2 NaN x = NaN"
| "Math_atan2 y NaN = NaN"
| "Math_atan2 (Fin y) (Fin x) =
     (if 0 < x then Fin (arctan (y / x))
      else if x < 0 then (if 0 \<le> y then Fin (arctan (y / x) + pi) else Fin (arctan (y / x) - pi))
      else if 0 < y then Fin (pi / 2) else if y < 0 then Fin (- pi / 2) else Fin 0)"
| "Math_atan2 (Fin y) PosInf = Fin 0"
| "Math_atan2 (Fin y) NegInf = (if 0 \<le> y then Fin pi else Fin (- pi))"
| "Math_atan2 PosInf (Fin x) = Fin (pi / 2)"
| "Math_atan2 NegInf (Fin x) = Fin (- pi / 2)"
| "Math_atan2 PosInf PosInf = Fin (pi / 4)"
| "Math_atan2 PosInf NegInf = Fin (3 * pi / 4)"
| "Math_atan2 NegInf PosInf = Fin (- pi / 4)"
| "Math_atan2 NegInf NegInf = Fin (- 3 * pi / 4)"

subsection \<open>Strings\<close>

definition is_digit :: "char \<Rightarrow> bool" where
  "is_digit c = (c \<in> set ''0123456789'')"

definition is_space :: "char \<Rightarrow> bool" where
  "is_space c = (c \<in> set [CHR 0x09, CHR 0x0A, CHR 0x0B, CHR 0x0C, CHR 0x0D, CHR '' ''])"

definition digit_val :: "char \<Rightarrow> nat" where
  "digit_val c = (case map_of (zip ''0123456789'' [0, 1, 2, 3, 4, 5, 6, 7, 8, 9]) c of
     Some d \<Rightarrow> d | None \<Rightarrow> 0)"

definition dec_value :: "string \<Rightarrow> nat" where
  "dec_value ds = foldl (\<lambda>n c. 10 * n + digit_val c) 0 ds"

definition lower_char :: "char \<Rightarrow> char" where
  "lower_char c = (case map_of (zip ''ABCDEFGHIJKLMNOPQRSTUVWXYZ'' ''abcdefghijklmnopqrstuvwxyz'') c of
     Some d \<Rightarrow> d | None \<Rightarrow> c)"

definition upper_char :: "char \<Rightarrow> char" where
  "upper_char c = (case map_of (zip ''abcdefghijklmnopqrstuvwxyz'' ''ABCDEFGHIJKLMNOPQRSTUVWXYZ'') c of
     Some d \<Rightarrow> d | None \<Rightarrow> c)"

definition toLowerCase :: "string \<Rightarrow> string" where
  "toLowerCase s = map lower_char s"

definition toUpperCase :: "string \<Rightarrow> string" where
  "toUpperCase s = map upper_char s"

definition trimStart :: "string \<Rightarrow> string" where
  "trimStart s = dropWhile is_space s"

definition trim :: "string \<Rightarrow> string" where
  "trim s = rev (dropWhile is_space (rev (dropWhile is_space s)))"

text \<open>\<open>String(v)\<close> for a value that is a string or \<open>undefined\<close>.\<close>

definition js_String :: "string option \<Rightarrow> string" where
  "js_String v = (case v of None \<Rightarrow> ''undefined'' | Some s \<Rightarrow> s)"

text \<open>\<open>v || d\<close> for a string or \<open>undefined\<close>: the empty string is falsy as well.\<close>

definition or_else :: "string option \<Rightarrow> string \<Rightarrow> string" where
  "or_else v d = (case v of None \<Rightarrow> d | Some s \<Rightarrow> if s = [] then d else s)"

text \<open>\<open>s.includes(p)\<close> on strings\<close>

fun str_includes :: "string \<Rightarrow> string \<Rightarrow> bool" where
  "str_includes [] p = (p = [])"
| "str_includes (c # s) p = (take (length p) (c # s) = p \<or> str_includes s p)"

subsection \<open>parseFloat and parseInt\<close>

definition scale10 :: "nat \<Rightarrow> int \<Rightarrow> real" where
  "scale10 m e = (if 0 \<le> e then real m * 10 ^ nat e else real m / 10 ^ nat (- e))"

text \<open>The value of an \<open>ExponentPart\<close> at the head of the string, 0 when there is none.\<close>

definition exponent_part :: "string \<Rightarrow> int" where
  "exponent_part s =
     (case s of
        [] \<Rightarrow> 0
      | c # r \<Rightarrow>
          if c = CHR ''e'' \<or> c = CHR ''E'' then
            (case r of
               [] \<Rightarrow> 0
             | d # r' \<Rightarrow>
                 if d = CHR ''+'' then int (dec_value (takeWhile is_digit r'))
                 else if d = CHR ''-'' then - int (dec_value (takeWhile is_digit r'))
                 else int (dec_value (takeWhile is_digit r)))
          else 0)"

text \<open>The longest prefix that is a \<open>StrUnsignedDecimalLiteral\<close>, as a number.\<close>

definition unsigned_decimal :: "string \<Rightarrow> jsnum" where
  "unsigned_decimal s =
     (if take 8 s = ''Infinity'' then PosInf
      else
        let ip = takeWhile is_digit s;
            r1 = dropWhile is_digit s;
            fp = (case r1 of [] \<Rightarrow> [] | c # r \<Rightarrow> if c = CHR ''.'' then takeWhile is_digit r else []);
            r2 = (case r1 of [] \<Rightarrow> [] | c # r \<Rightarrow> if c = CHR ''.'' then dropWhile is_digit r else r1)
        in if ip = [] \<and> fp = [] then NaN
           else to_number (scale10 (dec_value (ip @ fp)) (exponent_part r2 - int (length fp))))"

definition parseFloat :: "string \<Rightarrow> jsnum" where
  "parseFloat s =
     (case trimStart s of
        [] \<Rightarrow> NaN
      | c # r \<Rightarrow>
          if c = CHR ''-'' then js_neg (unsigned_decimal r)
          else if c = CHR ''+'' then unsigned_decimal r
          else unsigned_decimal (c # r))"

text \<open>\<open>parseInt(s, 10)\<close>\<close>

definition unsigned_integer :: "string \<Rightarrow> jsnum" where
  "unsigned_integer s =
     (let ds = takeWhile is_digit s
      in if ds = [] then NaN else to_number (real (dec_value ds)))"

definition parseInt10 :: "string \<Rightarrow> jsnum" where
  "parseInt10 s =
     (case trimStart s of
        [] \<Rightarrow> NaN
      | c # r \<Rightarrow>
          if c = CHR ''-'' then js_neg (unsigned_integer r)
          else if c = CHR ''+'' then unsigned_integer r
          else unsigned_integer (c # r))"

text \<open>\<open>xs.slice(0, n)\<close>: \<open>n\<close> is truncated to an integer; a negative one counts from the end.\<close>

definition slice0 :: "'a list \<Rightarrow> jsnum \<Rightarrow> 'a list" where
  "slice0 xs n =
     (case n of
        NaN \<Rightarrow> []
      | NegInf \<Rightarrow> []
      | PosInf \<Rightarrow> xs
      | Fin r \<Rightarrow>
          let k = (if r < 0 then - \<lfloor>- r\<rfloor> else \<lfloor>r\<rfloor>)
          in if k < 0 then take (nat (int (length xs) + k)) xs else take (nat k) xs)"

section \<open>Helpers of the server\<close>

definition toZip5 :: "string option \<Rightarrow> string" where
  "toZip5 v =
     (case v of
        None \<Rightarrow> []
      | Some s \<Rightarrow>
          let digits = take 5 (filter is_digit s)
          in replicate (5 - length digits) CHR ''0'' @ digits)"

definition parseBoolean :: "string option \<Rightarrow> bool" where
  "parseBoolean v =
     (let s = toLowerCase (trim (or_else v []))
      in s = ''true'' \<or> s = ''1'' \<or> s = ''yes'')"

definition toRad :: "jsnum \<Rightarrow> jsnum" where
  "toRad d = js_div (js_mul d (Fin pi)) (Fin 180)"

definition haversineMeters :: "jsnum \<Rightarrow> jsnum \<Rightarrow> jsnum \<Rightarrow> jsnum \<Rightarrow> jsnum" where
  "haversineMeters lat1 lon1 lat2 lon2 =
     (let R = Fin 6371000;
          dLat = toRad (js_sub lat2 lat1);
          dLon = toRad (js_sub lon2 lon1);
          a = js_add
                (js_mul (Math_sin (js_div dLat (Fin 2))) (Math_sin (js_div dLat (Fin 2))))
                (js_mul
                   (js_mul
                      (js_mul (Math_cos (toRad lat1)) (Math_cos (toRad lat2)))
                      (Math_sin (js_div dLon (Fin 2))))
                   (Math_sin (js_div dLon (Fin 2))));
          c = js_mul (Fin 2) (Math_atan2 (Math_sqrt a) (Math_sqrt (js_sub (Fin 1) a)))
      in js_mul R c)"

section \<open>Data held in memory\<close>

record coord =
  latitude :: jsnum
  longitude :: jsnum

text \<open>
  A store record; \<open>sid\<close> is the field \<open>id\<close> and \<open>zip_code\<close> the field \<open>zip\<close> of the
  source. An optional score is \<open>None\<close> when the source leaves it \<open>undefined\<close>.
\<close>

record store = coord +
  sid :: string
  name :: string
  address :: string
  city :: string
  borough :: string
  zip_code :: string
  county :: string
  storeType :: string
  isHealthyStore :: bool
  aiScore :: "jsnum option"
  aiReason :: string
  aiEconomyScore :: "jsnum option"
  aiEconomyReason :: string

text \<open>The object \<open>{...s, distance_m}\<close> of the store query: the store and its distance.\<close>

record store_with_distance =
  base :: store
  distance_m :: jsnum

text \<open>A row of the regional table: \<open>{zip: row['ZipCode'], borough: row['Borough']}\<close>.\<close>

record nyc_row =
  nz_zip :: "string option"
  nz_borough :: "string option"

record server =
  stores :: "store list"
  zipCentroids :: "string \<rightharpoonup> coord"
  nycZipCache :: "(string \<rightharpoonup> nyc_row) option"

text \<open>A parsed CSV row: column name to cell; a column the row lacks is \<open>undefined\<close>.\<close>

type_synonym row = "string \<rightharpoonup> string"

datatype 'a promise = Resolved 'a | Rejected

text \<open>How a stream of rows finishes: the \<open>end\<close> event or the \<open>error\<close> event.\<close>

datatype stream_end = End | StreamError

datatype error = E400 string | E404 string | E500 string

section \<open>Loading the stores\<close>

text \<open>The \<open>data\<close> callback of \<open>loadStoresFromCsv\<close>: skips the row or pushes one record.\<close>

definition on_data :: "row \<Rightarrow> store list \<Rightarrow> store list" where
  "on_data row results =
     (let lat = parseFloat (js_String (row ''Latitude''));
          lon = parseFloat (js_String (row ''Longitude''))
      in if \<not> isFinite lat \<or> \<not> isFinite lon then results
         else
           let rawHealthScore = row ''AI_Health_Score'';
               aiScore =
                 (case rawHealthScore of
                    None \<Rightarrow> None
                  | Some raw \<Rightarrow>
                      if trim raw \<noteq> [] then
                        (let n = parseInt10 raw
                         in if isFinite n then Some (Math_max (Fin 1) (Math_min (Fin 10) n))
                            else None)
                      else None);
               aiReason = or_else (row ''AI_Health_Reason'') [];
               rawEconomyScore = row ''AI_Economy_Score'';
               aiEconomyScore =
                 (case rawEconomyScore of
                    None \<Rightarrow> None
                  | Some raw \<Rightarrow>
                      if trim raw \<noteq> [] then
                        (let n = parseInt10 raw
                         in if isFinite n then Some (Math_max (Fin 1) (Math_min (Fin 5) n))
                            else None)
                      else None);
               aiEconomyReason = or_else (row ''AI_Economy_Reason'') []
           in results @
              [\<lparr>latitude = lat,
                longitude = lon,
                sid = or_else (row ''Record_ID'') (or_else (row ''ObjectId'') []),
                name = or_else (row ''Store_Name'') [],
                address = or_else (row ''Store_Street_Address'') [],
                city = or_else (row ''City'') [],
                borough = toUpperCase (or_else (row ''County'') []),
                zip_code = toZip5 (row ''Zip_Code''),
                county = or_else (row ''County'') [],
                storeType = or_else (row ''Store_Type'') [],
                isHealthyStore = parseBoolean (row ''Is_Healthy_Store''),
                aiScore = aiScore,
                aiReason = aiReason,
                aiEconomyScore = aiEconomyScore,
                aiEconomyReason = aiEconomyReason\<rparr>])"

text \<open>The rows seen so far are folded through the callback; the promise is settled by
  the event that ends the stream.\<close>

definition loadStoresFromCsv :: "row list \<Rightarrow> stream_end \<Rightarrow> store list promise" where
  "loadStoresFromCsv rows fin =
     (case fin of
        End \<Rightarrow> Resolved (foldl (\<lambda>results row. on_data row results) [] rows)
      | StreamError \<Rightarrow> Rejected)"

section \<open>The store query\<close>

text \<open>The query string of \<open>GET /stores\<close>: each parameter is a string or absent.\<close>

record query =
  q_lat :: "string option"
  q_lng :: "string option"
  q_radius :: "string option"
  q_isHealthy :: "string option"
  q_storeType :: "string option"
  q_limit :: "string option"

text \<open>
  \<open>Array.prototype.sort\<close> is stable, and every stable sort returns the same array for a
  comparator that orders the elements consistently; insertion from the right computes it.
  An element moves behind another only when the comparator returns a positive number
  (NaN counts as 0).
\<close>

fun insert_by :: "('a \<Rightarrow> 'a \<Rightarrow> jsnum) \<Rightarrow> 'a \<Rightarrow> 'a list \<Rightarrow> 'a list" where
  "insert_by cmp x [] = [x]"
| "insert_by cmp x (y # ys) =
     (if js_lt (Fin 0) (cmp x y) then y # insert_by cmp x ys else x # y # ys)"

definition array_sort :: "('a \<Rightarrow> 'a \<Rightarrow> jsnum) \<Rightarrow> 'a list \<Rightarrow> 'a list" where
  "array_sort cmp xs = foldr (insert_by cmp) xs []"

definition lat_of :: "query \<Rightarrow> jsnum" where
  "lat_of q = parseFloat (or_else (q_lat q) ''0'')"

definition lng_of :: "query \<Rightarrow> jsnum" where
  "lng_of q = parseFloat (or_else (q_lng q) ''0'')"

definition radiusMeters_of :: "query \<Rightarrow> jsnum" where
  "radiusMeters_of q = parseFloat (or_else (q_radius q) ''1609'')"

definition healthyOnly_of :: "query \<Rightarrow> string" where
  "healthyOnly_of q = toLowerCase (or_else (q_isHealthy q) ''any'')"

definition storeType_of :: "query \<Rightarrow> string" where
  "storeType_of q = trim (or_else (q_storeType q) [])"

definition rawLimit_of :: "query \<Rightarrow> string" where
  "rawLimit_of q = or_else (q_limit q) ''200''"

text \<open>The variable \<open>limit\<close> after the fallback of line 217.\<close>

definition limit_of :: "query \<Rightarrow> jsnum" where
  "limit_of q =
     (let rawLimit = rawLimit_of q;
          limit = (if toLowerCase rawLimit = ''unlimited'' then PosInf else parseInt10 rawLimit)
      in if \<not> isFinite limit \<or> js_le limit (Fin 0) then Fin 200 else limit)"

text \<open>Lines 223 to 241: filter, attach the distance, cut at the radius, sort, truncate.\<close>

definition nearby ::
  "store list \<Rightarrow> jsnum \<Rightarrow> jsnum \<Rightarrow> jsnum \<Rightarrow> string \<Rightarrow> string \<Rightarrow> jsnum \<Rightarrow> store_with_distance list" where
  "nearby all_stores lat lng radiusMeters healthyOnly storeTypeQ limit =
     (let filtered =
            (if healthyOnly = ''true'' then filter (\<lambda>s. isHealthyStore s) all_stores
             else if healthyOnly = ''false'' then filter (\<lambda>s. \<not> isHealthyStore s) all_stores
             else all_stores);
          filtered =
            (if storeTypeQ \<noteq> [] then
               (let typeLc = toLowerCase storeTypeQ
                in filter (\<lambda>s. toLowerCase (storeType s) = typeLc) filtered)
             else filtered);
          withDistance =
            array_sort (\<lambda>a b. js_sub (distance_m a) (distance_m b))
              (filter (\<lambda>s. js_le (distance_m s) radiusMeters)
                 (map (\<lambda>s. \<lparr>base = s,
                             distance_m = haversineMeters lat lng (latitude s) (longitude s)\<rparr>)
                    filtered))
      in if isFinite limit then slice0 withDistance limit else withDistance)"

definition get_stores :: "store list \<Rightarrow> query \<Rightarrow> error + store_with_distance list" where
  "get_stores all_stores q =
     (let lat = lat_of q;
          lng = lng_of q;
          radiusMeters = radiusMeters_of q;
          healthyOnly = healthyOnly_of q;
          storeTypeQ = storeType_of q;
          limit = limit_of q
      in if \<not> isFinite lat \<or> \<not> isFinite lng
         then Inl (E400 ''lat and lng are required numbers'')
         else Inr (nearby all_stores lat lng radiusMeters healthyOnly storeTypeQ limit))"

section \<open>ZIP lookup\<close>

definition getBoroughCoordinates :: "string \<Rightarrow> coord" where
  "getBoroughCoordinates b =
     (let boroughCoords =
            [(''BRONX'', \<lparr>latitude = Fin 40.8448, longitude = Fin (- 73.8648)\<rparr>),
             (''BROOKLYN'', \<lparr>latitude = Fin 40.6782, longitude = Fin (- 73.9442)\<rparr>),
             (''MANHATTAN'', \<lparr>latitude = Fin 40.7831, longitude = Fin (- 73.9712)\<rparr>),
             (''QUEENS'', \<lparr>latitude = Fin 40.7282, longitude = Fin (- 73.7949)\<rparr>),
             (''STATEN ISLAND'', \<lparr>latitude = Fin 40.5795, longitude = Fin (- 74.1502)\<rparr>)]
      in case map_of boroughCoords (toUpperCase b) of
           Some c \<Rightarrow> c
         | None \<Rightarrow> \<lparr>latitude = Fin 40.7831, longitude = Fin (- 73.9712)\<rparr>)"

definition getNYCApproximateCoordinates :: "string \<Rightarrow> coord option" where
  "getNYCApproximateCoordinates zip5 =
     (let zipPrefix = take 3 zip5;
          zipPrefixCoords =
            [(''100'', \<lparr>latitude = Fin 40.7589, longitude = Fin (- 73.9851)\<rparr>),
             (''101'', \<lparr>latitude = Fin 40.7589, longitude = Fin (- 73.9851)\<rparr>),
             (''102'', \<lparr>latitude = Fin 40.7589, longitude = Fin (- 73.9851)\<rparr>),
             (''103'', \<lparr>latitude = Fin 40.5795, longitude = Fin (- 74.1502)\<rparr>),
             (''104'', \<lparr>latitude = Fin 40.8448, longitude = Fin (- 73.8648)\<rparr>),
             (''110'', \<lparr>latitude = Fin 40.7282, longitude = Fin (- 73.7949)\<rparr>),
             (''111'', \<lparr>latitude = Fin 40.7282, longitude = Fin (- 73.7949)\<rparr>),
             (''112'', \<lparr>latitude = Fin 40.6782, longitude = Fin (- 73.9442)\<rparr>),
             (''113'', \<lparr>latitude = Fin 40.7282, longitude = Fin (- 73.7949)\<rparr>),
             (''114'', \<lparr>latitude = Fin 40.7282, longitude = Fin (- 73.7949)\<rparr>),
             (''116'', \<lparr>latitude = Fin 40.7282, longitude = Fin (- 73.7949)\<rparr>)]
      in map_of zipPrefixCoords zipPrefix)"

text \<open>
  What the lookup meets outside the process. The regional CSV file is missing, or its
  parser stream ends in \<open>error\<close>, or it yields rows. A fetch of the geocoding service
  throws somewhere inside its \<open>try\<close> block (the request, the JSON body, a hit that is
  not an object), or answers with a status that is not ok, or answers with a list of hits,
  each with optional \<open>lat\<close> and \<open>lon\<close> strings (a body without a positive \<open>length\<close>
  is the empty list). A fetch of the validation service throws, is not ok, or has a text.
\<close>

datatype csv_file = NoFile | ParseError | CsvRows "nyc_row list"

record geo_hit =
  hit_lat :: "string option"
  hit_lon :: "string option"

datatype nominatim_reply = NominatimThrows | NominatimNotOk | NominatimJson "geo_hit list"

datatype usps_reply = UspsThrows | UspsNotOk | UspsText string

record world =
  nyc_csv :: csv_file
  nominatim :: "string \<Rightarrow> nominatim_reply"
  usps :: "string \<Rightarrow> usps_reply"

text \<open>\<open>Object.fromEntries(results.map(r => [r.zip, r]))\<close>: a later row replaces an
  earlier one with the same key, and an \<open>undefined\<close> key is the string \<open>undefined\<close>.\<close>

definition fromEntries :: "nyc_row list \<Rightarrow> (string \<rightharpoonup> nyc_row)" where
  "fromEntries results = foldl (\<lambda>m r. m(js_String (nz_zip r) \<mapsto> r)) Map.empty results"

text \<open>The promise of \<open>loadNYCZips\<close> and the state it leaves: the table is cached once read.\<close>

definition loadNYCZips :: "world \<Rightarrow> server \<Rightarrow> (string \<rightharpoonup> nyc_row) promise \<times> server" where
  "loadNYCZips w s =
     (case nycZipCache s of
        Some cache \<Rightarrow> (Resolved cache, s)
      | None \<Rightarrow>
          (case nyc_csv w of
             NoFile \<Rightarrow> (Resolved Map.empty, s)
           | ParseError \<Rightarrow> (Rejected, s)
           | CsvRows results \<Rightarrow>
               (Resolved (fromEntries results), s\<lparr>nycZipCache := Some (fromEntries results)\<rparr>)))"

definition nominatimUrl :: "string \<Rightarrow> string" where
  "nominatimUrl zip5 =
     ''https://nominatim.openstreetmap.org/search?postalcode='' @ zip5 @
     ''&country=US&format=json&limit=1''"

definition uspsUrl :: "string \<Rightarrow> string" where
  \<open>uspsUrl zip5 =
     ''https://secure.shippingapis.com/ShippingAPI.dll?API=CityStateLookup&XML=<CityStateLookupRequest><ZipCode ID="0"><Zip5>'' @
     zip5 @ ''</Zip5></ZipCode></CityStateLookupRequest>''\<close>

text \<open>Second try: the regional table. The promise is rejected when the load is, or when
  the row found has no borough (\<open>borough.toUpperCase()\<close> throws a TypeError).\<close>

definition second_try :: "world \<Rightarrow> server \<Rightarrow> string \<Rightarrow> coord option promise \<times> server" where
  "second_try w s zip5 =
     (case loadNYCZips w s of
        (Rejected, s') \<Rightarrow> (Rejected, s')
      | (Resolved nycZipData, s') \<Rightarrow>
          (case nycZipData zip5 of
             None \<Rightarrow> (Resolved None, s')
           | Some r \<Rightarrow>
               (case nz_borough r of
                  None \<Rightarrow> (Rejected, s')
                | Some b \<Rightarrow> (Resolved (Some (getBoroughCoordinates b)), s'))))"

text \<open>Third try: the geocoding service; every failure is swallowed.\<close>

definition third_try :: "world \<Rightarrow> string \<Rightarrow> coord option" where
  "third_try w zip5 =
     (case nominatim w (nominatimUrl zip5) of
        NominatimJson (hit # hits) \<Rightarrow>
          Some \<lparr>latitude = parseFloat (js_String (hit_lat hit)),
                longitude = parseFloat (js_String (hit_lon hit))\<rparr>
      | _ \<Rightarrow> None)"

text \<open>Fourth try: the validation service and the table of ZIP prefixes.\<close>

definition fourth_try :: "world \<Rightarrow> string \<Rightarrow> coord option" where
  "fourth_try w zip5 =
     (case usps w (uspsUrl zip5) of
        UspsText uspsText \<Rightarrow>
          if \<not> str_includes uspsText ''<Error>'' then getNYCApproximateCoordinates zip5
          else None
      | _ \<Rightarrow> None)"

text \<open>
  The handler of \<open>GET /zip/:zip\<close>. It returns the response, the state it leaves and the
  URLs it fetched, in order. The parameter is a string or \<open>undefined\<close>, the values
  \<open>toZip5\<close> tells apart (the router itself only passes strings).
\<close>

definition get_zip ::
  "world \<Rightarrow> server \<Rightarrow> string option \<Rightarrow> (error + coord) \<times> server \<times> string list" where
  "get_zip w s param =
     (let zip5 = toZip5 param
      in if zip5 = [] then (Inl (E400 ''Invalid ZIP''), s, [])
         else
           (case zipCentroids s zip5 of
              Some centroid \<Rightarrow> (Inr centroid, s, [])
            | None \<Rightarrow>
                (case second_try w s zip5 of
                   (Rejected, s1) \<Rightarrow> (Inl (E500 ''ZIP lookup failed''), s1, [])
                 | (Resolved (Some boroughCoords), s1) \<Rightarrow> (Inr boroughCoords, s1, [])
                 | (Resolved None, s1) \<Rightarrow>
                     (case third_try w zip5 of
                        Some coords \<Rightarrow>
                          (Inr coords,
                           s1\<lparr>zipCentroids := (zipCentroids s1)(zip5 \<mapsto> coords)\<rparr>,
                           [nominatimUrl zip5])
                      | None \<Rightarrow>
                          (case fourth_try w zip5 of
                             Some nycCoords \<Rightarrow>
                               (Inr nycCoords,
                                s1\<lparr>zipCentroids := (zipCentroids s1)(zip5 \<mapsto> nycCoords)\<rparr>,
                                [nominatimUrl zip5, uspsUrl zip5])
                           | None \<Rightarrow>
                               (Inl (E404 ''ZIP not found''), s1,
                                [nominatimUrl zip5, uspsUrl zip5]))))))"

section \<open>Startup\<close>

text \<open>The centroid of a ZIP: the sums of the loop over the stores, divided by the count.\<close>

definition centroid_of :: "store list \<Rightarrow> string \<Rightarrow> coord option" where
  "centroid_of ss z =
     (let group = filter (\<lambda>s. zip_code s = z) ss
      in if z = [] \<or> group = [] then None
         else Some \<lparr>latitude =
                      js_div (foldl (\<lambda>sumLat s. js_add sumLat (latitude s)) (Fin 0) group)
                        (Fin (real (length group))),
                    longitude =
                      js_div (foldl (\<lambda>sumLon s. js_add sumLon (longitude s)) (Fin 0) group)
                        (Fin (real (length group)))\<rparr>)"

text \<open>\<open>start\<close>: the stores are the loaded records; a failed load ends the process.\<close>

definition start :: "row list \<Rightarrow> stream_end \<Rightarrow> server option" where
  "start rows fin =
     (case loadStoresFromCsv rows fin of
        Rejected \<Rightarrow> None
      | Resolved loaded \<Rightarrow>
          Some \<lparr>stores = loaded, zipCentroids = centroid_of loaded, nycZipCache = None\<rparr>)"

section \<open>Sample data\<close>

text \<open>Small inputs on which the theorems below are exercised.\<close>

definition sample_store :: "string \<Rightarrow> real \<Rightarrow> real \<Rightarrow> store" where
  "sample_store i la lo =
     \<lparr>latitude = Fin la, longitude = Fin lo, sid = i, name = [], address = [], city = [],
      borough = [], zip_code = [], county = [], storeType = [], isHealthyStore = False,
      aiScore = None, aiReason = [], aiEconomyScore = None, aiEconomyReason = []\<rparr>"

definition sample_query ::
  "string option \<Rightarrow> string option \<Rightarrow> string option \<Rightarrow> string option \<Rightarrow> query" where
  "sample_query la lo r l =
     \<lparr>q_lat = la, q_lng = lo, q_radius = r, q_isHealthy = None, q_storeType = None, q_limit = l\<rparr>"

text \<open>A world in which every fetch throws, and a server without stores.\<close>

definition sample_world :: "csv_file \<Rightarrow> world" where
  "sample_world f =
     \<lparr>nyc_csv = f, nominatim = (\<lambda>url. NominatimThrows), usps = (\<lambda>url. UspsThrows)\<rparr>"

definition sample_server :: "(string \<rightharpoonup> coord) \<Rightarrow> server" where
  "sample_server cs = \<lparr>stores = [], zipCentroids = cs, nycZipCache = None\<rparr>"

section \<open>Numbers and their order\<close>

lemma DBL_LIMIT_big: "2 ^ 64 < DBL_LIMIT"
proof -
  have "(2::real) ^ 970 \<le> 2 ^ 1023" by (rule power_increasing) simp_all
  moreover have "(2::real) ^ 1024 = 2 * 2 ^ 1023" by simp
  moreover have "(2::real) ^ 64 < 2 ^ 1023" by (rule power_strict_increasing) simp_all
  ultimately show ?thesis unfolding DBL_LIMIT_def by linarith
qed

lemma DBL_LIMIT_pos: "0 < DBL_LIMIT"
proof -
  have "(0::real) < 2 ^ 64" by simp
  then show ?thesis using DBL_LIMIT_big by (rule less_trans)
qed

lemma to_number_small: "\<bar>r\<bar> \<le> 2 ^ 64 \<Longrightarrow> to_number r = Fin r"
  using DBL_LIMIT_big by (auto simp: to_number_def)

lemma pos_to_number: "js_lt (Fin 0) (to_number r) = (0 < r)"
  using DBL_LIMIT_pos by (auto simp: to_number_def)

lemma js_le_not_NaN: "js_le x y \<Longrightarrow> x \<noteq> NaN \<and> y \<noteq> NaN"
  by (cases x; cases y) simp_all

lemma js_le_NaN_right: "\<not> js_le x NaN"
  by (cases x) simp_all

lemma js_le_trans: "js_le x y \<Longrightarrow> js_le y z \<Longrightarrow> js_le x z"
  by (cases x; cases y; cases z) simp_all

lemma compare_positive: "x \<noteq> NaN \<Longrightarrow> y \<noteq> NaN \<Longrightarrow> js_lt (Fin 0) (js_sub x y) = (\<not> js_le x y)"
  by (cases x; cases y) (auto simp: js_sub_def pos_to_number)

section \<open>Sorting and slicing\<close>

lemma set_insert_by: "set (insert_by cmp x ys) = insert x (set ys)"
  by (induction ys) auto

lemma set_array_sort: "set (array_sort cmp xs) = set xs"
  by (induction xs) (simp_all add: array_sort_def set_insert_by)

lemma sorted_insert_by:
  assumes "sorted_wrt (\<lambda>a b. js_le (d a) (d b)) ys"
    and "d x \<noteq> NaN" and "\<forall>y\<in>set ys. d y \<noteq> NaN"
  shows "sorted_wrt (\<lambda>a b. js_le (d a) (d b)) (insert_by (\<lambda>a b. js_sub (d a) (d b)) x ys)"
  using assms
proof (induction ys)
  case Nil
  then show ?case by simp
next
  case (Cons y ys)
  show ?case
  proof (cases "js_le (d x) (d y)")
    case True
    then have "\<forall>z\<in>set ys. js_le (d x) (d z)"
      using Cons.prems(1) js_le_trans by auto
    with True Cons.prems show ?thesis
      by (simp add: compare_positive)
  next
    case False
    then have yx: "js_le (d y) (d x)"
      using Cons.prems(2,3) by (cases "d x"; cases "d y") auto
    from False Cons show ?thesis
      by (auto simp: compare_positive set_insert_by yx)
  qed
qed

lemma sorted_array_sort:
  "\<forall>x\<in>set xs. d x \<noteq> NaN \<Longrightarrow>
   sorted_wrt (\<lambda>a b. js_le (d a) (d b)) (array_sort (\<lambda>a b. js_sub (d a) (d b)) xs)"
proof (induction xs)
  case Nil
  then show ?case by (simp add: array_sort_def)
next
  case (Cons x xs)
  then have "sorted_wrt (\<lambda>a b. js_le (d a) (d b)) (array_sort (\<lambda>a b. js_sub (d a) (d b)) xs)"
    by simp
  then have "sorted_wrt (\<lambda>a b. js_le (d a) (d b))
      (insert_by (\<lambda>a b. js_sub (d a) (d b)) x (array_sort (\<lambda>a b. js_sub (d a) (d b)) xs))"
    using Cons.prems by (intro sorted_insert_by) (simp_all add: set_array_sort)
  then show ?case by (simp add: array_sort_def)
qed

lemma set_slice0: "set (slice0 xs n) \<subseteq> set xs"
  by (cases n) (auto simp: slice0_def Let_def dest: in_set_takeD)

lemma sorted_slice0: "sorted_wrt R xs \<Longrightarrow> sorted_wrt R (slice0 xs n)"
  by (cases n) (auto simp: slice0_def Let_def sorted_wrt_take)

lemma length_slice0: "0 < r \<Longrightarrow> real (length (slice0 xs (Fin r))) \<le> r"
proof -
  assume r: "0 < r"
  then have "slice0 xs (Fin r) = take (nat \<lfloor>r\<rfloor>) xs"
    by (simp add: slice0_def Let_def)
  then have "length (slice0 xs (Fin r)) \<le> nat \<lfloor>r\<rfloor>" by simp
  then have "real (length (slice0 xs (Fin r))) \<le> real (nat \<lfloor>r\<rfloor>)" by linarith
  also have "\<dots> \<le> r" using r by linarith
  finally show ?thesis .
qed

section \<open>The parsers on sample strings\<close>

lemmas parse_defs = parseFloat_def parseInt10_def unsigned_integer_def trimStart_def is_space_def
  unsigned_decimal_def is_digit_def exponent_part_def dec_value_def digit_val_def scale10_def
  to_number_small Let_def

lemma parseFloat_0: "parseFloat ''0'' = Fin 0" by (simp add: parse_defs)

lemma parseFloat_1609: "parseFloat ''1609'' = Fin 1609" by (simp add: parse_defs)

lemma parseFloat_abc: "parseFloat ''abc'' = NaN" by (simp add: parse_defs)

lemma parseFloat_minus5: "parseFloat ''-5'' = Fin (- 5)" by (simp add: parse_defs)

lemma parseFloat_30000000: "parseFloat ''30000000'' = Fin 30000000" by (simp add: parse_defs)

lemma parseFloat_lat: "parseFloat ''40.7'' = Fin 40.7" by (simp add: parse_defs)

lemma parseFloat_lon: "parseFloat ''-73.9'' = Fin (- 73.9)" by (simp add: parse_defs)

lemma parseFloat_undefined: "parseFloat ''undefined'' = NaN" by (simp add: parse_defs)

lemma parseInt10_200: "parseInt10 ''200'' = Fin 200" by (simp add: parse_defs)

lemma parseInt10_1: "parseInt10 ''1'' = Fin 1" by (simp add: parse_defs)

lemma parseInt10_abc: "parseInt10 ''abc'' = NaN" by (simp add: parse_defs)

lemma lower_200: "toLowerCase ''200'' = ''200''" by code_simp

lemma lower_any: "toLowerCase ''any'' = ''any''" by code_simp

lemma lower_1: "toLowerCase ''1'' = ''1''" by code_simp

lemma lower_abc: "toLowerCase ''abc'' = ''abc''" by code_simp

lemma lower_unlimited: "toLowerCase ''Unlimited'' = ''unlimited''" by code_simp

lemma or_else_simps:
  "or_else None d = d" "or_else (Some []) d = d" "v \<noteq> [] \<Longrightarrow> or_else (Some v) d = v"
  by (simp_all add: or_else_def)

section \<open>Distances between the sample stores\<close>

lemma haversineMeters_origin: "haversineMeters (Fin 0) (Fin 0) (Fin 0) (Fin 0) = Fin 0"
  by (simp add: haversineMeters_def toRad_def js_sub_def to_number_small)

lemma pi_scaled_small: "0 \<le> k \<Longrightarrow> k \<le> 2 ^ 32 \<Longrightarrow> \<bar>k * pi\<bar> \<le> 2 ^ 64"
proof -
  assume k: "0 \<le> k" "k \<le> 2 ^ 32"
  have "k * pi \<le> 2 ^ 32 * 4"
    using k pi_less_4 by (intro mult_mono) simp_all
  moreover have "0 \<le> k * pi" using k by simp
  ultimately show ?thesis by simp
qed

lemma haversineMeters_half_turn:
  "haversineMeters (Fin 0) (Fin 0) (Fin 0) (Fin 180) = Fin (6371000 * pi)"
proof -
  have a: "to_number (180 * pi) = Fin (180 * pi)" by (rule to_number_small, rule pi_scaled_small) simp_all
  have b: "to_number pi = Fin pi" using pi_scaled_small [of 1] by (simp add: to_number_small)
  have c: "to_number (6371000 * pi) = Fin (6371000 * pi)"
    by (rule to_number_small, rule pi_scaled_small) simp_all
  have d: "to_number (pi / 2) = Fin (pi / 2)"
    using pi_scaled_small [of "1 / 2"] by (simp add: to_number_small)
  have e: "to_number 180 = Fin 180" "to_number 0 = Fin 0" "to_number 1 = Fin 1" 
    by (simp_all add: to_number_small)
  show ?thesis
    by (simp add: haversineMeters_def toRad_def js_sub_def a b c d e Let_def)
qed

lemma half_turn_bounds: "6371000 * pi \<le> 30000000" "0 < 6371000 * pi"
  using pi_less_4 by simp_all

section \<open>The distance\<close>






lemma js_sign_neg: "js_sign (js_neg x) = - js_sign x"
  by (cases x) (simp_all add: sgn_minus)



















section \<open>The store query\<close>

lemma nearby_unfold:
  fixes ss lat lng r h t l
  defines "G \<equiv> (if h = ''true'' then filter (\<lambda>s. isHealthyStore s) ss
             else if h = ''false'' then filter (\<lambda>s. \<not> isHealthyStore s) ss
             else ss)"
  defines "F \<equiv> (if t \<noteq> [] then filter (\<lambda>s. toLowerCase (storeType s) = toLowerCase t) G else G)"
  defines "W \<equiv> array_sort (\<lambda>a b. js_sub (distance_m a) (distance_m b))
              (filter (\<lambda>s. js_le (distance_m s) r)
                 (map (\<lambda>s. \<lparr>base = s,
                             distance_m = haversineMeters lat lng (latitude s) (longitude s)\<rparr>) F))"
  shows "nearby ss lat lng r h t l = (if isFinite l then slice0 W l else W) \<and> set F \<subseteq> set ss"
proof -
  have "set G \<subseteq> set ss" by (auto simp: G_def)
  moreover have "set F \<subseteq> set G" by (auto simp: F_def)
  moreover have "nearby ss lat lng r h t l = (if isFinite l then slice0 W l else W)"
    by (simp only: nearby_def Let_def G_def F_def W_def)
  ultimately show ?thesis by blast
qed

lemma nearby_set:
  assumes "x \<in> set (nearby ss lat lng r h t l)"
  shows "base x \<in> set ss \<and> js_le (distance_m x) r \<and>
         distance_m x = haversineMeters lat lng (latitude (base x)) (longitude (base x))"
proof -
  define G where "G = (if h = ''true'' then filter (\<lambda>s. isHealthyStore s) ss
             else if h = ''false'' then filter (\<lambda>s. \<not> isHealthyStore s) ss
             else ss)"
  define F where "F = (if t \<noteq> [] then filter (\<lambda>s. toLowerCase (storeType s) = toLowerCase t) G else G)"
  define f where "f = (\<lambda>s. \<lparr>base = s, distance_m = haversineMeters lat lng (latitude s) (longitude s)\<rparr>)"
  define W where "W = array_sort (\<lambda>a b. js_sub (distance_m a) (distance_m b))
              (filter (\<lambda>s. js_le (distance_m s) r) (map f F))"
  have n: "nearby ss lat lng r h t l = (if isFinite l then slice0 W l else W)" and F: "set F \<subseteq> set ss"
    using nearby_unfold [of ss lat lng r h t l] unfolding G_def F_def W_def f_def by blast+
  have "x \<in> set W"
    using assms set_slice0 [of W l] unfolding n by (auto split: if_splits)
  then have "x \<in> set (filter (\<lambda>s. js_le (distance_m s) r) (map f F))"
    by (simp add: W_def set_array_sort)
  then show ?thesis using F by (auto simp: f_def)
qed

lemma nearby_sorted:
  "sorted_wrt (\<lambda>a b. js_le (distance_m a) (distance_m b)) (nearby ss lat lng r h t l)"
proof -
  have "sorted_wrt (\<lambda>a b. js_le (distance_m a) (distance_m b))
     (array_sort (\<lambda>a b. js_sub (distance_m a) (distance_m b))
        (filter (\<lambda>s. js_le (distance_m s) r) xs))" for xs :: "store_with_distance list"
    by (rule sorted_array_sort) (auto dest: js_le_not_NaN)
  then show ?thesis
    unfolding nearby_def Let_def by (simp add: sorted_slice0)
qed

lemma nearby_length:
  assumes "0 < n"
  shows "real (length (nearby ss lat lng r h t (Fin n))) \<le> n"
  using assms unfolding nearby_def Let_def by (simp add: length_slice0)

lemma get_stores_Inr:
  "get_stores ss q = Inr res \<Longrightarrow>
   res = nearby ss (lat_of q) (lng_of q) (radiusMeters_of q) (healthyOnly_of q) (storeType_of q) (limit_of q)"
  by (auto simp: get_stores_def Let_def split: if_splits)

lemma limit_of_cases:
  "limit_of q =
     (if toLowerCase (rawLimit_of q) = ''unlimited'' then Fin 200
      else case parseInt10 (rawLimit_of q) of
             Fin n \<Rightarrow> if n \<le> 0 then Fin 200 else Fin n
           | _ \<Rightarrow> Fin 200)"
  by (simp add: limit_of_def Let_def split: jsnum.splits)

lemma sample_query_parts:
  "lat_of (sample_query la lo r l) = parseFloat (or_else la ''0'')"
  "lng_of (sample_query la lo r l) = parseFloat (or_else lo ''0'')"
  "radiusMeters_of (sample_query la lo r l) = parseFloat (or_else r ''1609'')"
  "healthyOnly_of (sample_query la lo r l) = ''any''"
  "storeType_of (sample_query la lo r l) = []"
  "rawLimit_of (sample_query la lo r l) = or_else l ''200''"
  by (simp_all add: lat_of_def lng_of_def radiusMeters_of_def healthyOnly_of_def storeType_of_def
      rawLimit_of_def sample_query_def or_else_simps lower_any trim_def)

lemma sample_eval_default:
  "get_stores [sample_store ''a'' 0 0] (sample_query la lo None None) = 
   (if isFinite (parseFloat (or_else la ''0'')) \<and> isFinite (parseFloat (or_else lo ''0'')) then
   Inr (nearby [sample_store ''a'' 0 0] (parseFloat (or_else la ''0'')) (parseFloat (or_else lo ''0'')) (Fin 1609) ''any'' [] (Fin 200))
   else Inl (E400 ''lat and lng are required numbers''))"
  by (simp add: get_stores_def Let_def lat_of_def lng_of_def radiusMeters_of_def healthyOnly_of_def
      storeType_of_def limit_of_cases rawLimit_of_def sample_query_def or_else_simps parseFloat_1609
      lower_any lower_200 parseInt10_200 trim_def)

lemma nearby_one_origin:
  "nearby [sample_store ''a'' 0 0] (Fin 0) (Fin 0) (Fin 1609) ''any'' [] (Fin 200) =
     [\<lparr>base = sample_store ''a'' 0 0, distance_m = Fin 0\<rparr>]"
  by (simp add: nearby_def Let_def sample_store_def haversineMeters_origin array_sort_def slice0_def)

lemma nearby_two_origin:
  "0 < n \<Longrightarrow> nearby [sample_store ''a'' 0 0, sample_store ''b'' 0 0] (Fin 0) (Fin 0) (Fin 1609) ''any'' [] (Fin n) =
     take (nat \<lfloor>n\<rfloor>) [\<lparr>base = sample_store ''a'' 0 0, distance_m = Fin 0\<rparr>,
      \<lparr>base = sample_store ''b'' 0 0, distance_m = Fin 0\<rparr>]"
  by (simp add: nearby_def Let_def sample_store_def haversineMeters_origin array_sort_def slice0_def
      js_sub_def to_number_small)

lemma sample_eval_no_radius:
  "get_stores [sample_store ''a'' 0 0] (sample_query None None None None) =
     Inr [\<lparr>base = sample_store ''a'' 0 0, distance_m = Fin 0\<rparr>]"
  by (simp add: sample_eval_default or_else_simps parseFloat_0 nearby_one_origin)

lemma sample_eval_far_near:
  "get_stores [sample_store ''far'' 0 180, sample_store ''near'' 0 0]
     (sample_query (Some ''0'') (Some ''0'') (Some ''30000000'') None) =
   Inr [\<lparr>base = sample_store ''near'' 0 0, distance_m = Fin 0\<rparr>,
        \<lparr>base = sample_store ''far'' 0 180, distance_m = Fin (6371000 * pi)\<rparr>]"
proof -
  have q: "get_stores ss (sample_query (Some ''0'') (Some ''0'') (Some ''30000000'') None) =
      Inr (nearby ss (Fin 0) (Fin 0) (Fin 30000000) ''any'' [] (Fin 200))" for ss
    by (simp add: get_stores_def Let_def lat_of_def lng_of_def radiusMeters_of_def healthyOnly_of_def
      storeType_of_def limit_of_cases rawLimit_of_def sample_query_def or_else_simps parseFloat_0
      parseFloat_30000000 lower_any lower_200 parseInt10_200 trim_def)
  have s: "to_number (6371000 * pi) = Fin (6371000 * pi)"
    by (rule to_number_small, rule pi_scaled_small) simp_all
  show ?thesis unfolding q
    by (simp add: nearby_def Let_def sample_store_def haversineMeters_origin haversineMeters_half_turn
        array_sort_def slice0_def js_sub_def half_turn_bounds s)
qed

lemma sample_eval_limit_1:
  "get_stores [sample_store ''a'' 0 0, sample_store ''b'' 0 0] (sample_query None None None (Some ''1'')) =
     Inr [\<lparr>base = sample_store ''a'' 0 0, distance_m = Fin 0\<rparr>]"
  by (simp add: get_stores_def Let_def sample_query_parts or_else_simps parseFloat_0 parseFloat_1609
      limit_of_cases lower_1 parseInt10_1 nearby_two_origin)

lemma sample_eval_limit_abc:
  "get_stores [sample_store ''a'' 0 0, sample_store ''b'' 0 0] (sample_query None None None (Some ''abc'')) =
     Inr [\<lparr>base = sample_store ''a'' 0 0, distance_m = Fin 0\<rparr>,
          \<lparr>base = sample_store ''b'' 0 0, distance_m = Fin 0\<rparr>]"
  by (simp add: get_stores_def Let_def sample_query_parts or_else_simps parseFloat_0 parseFloat_1609
      limit_of_cases lower_abc parseInt10_abc nearby_two_origin)

lemma sample_eval_radius_abc:
  "get_stores [sample_store ''a'' 0 0] (sample_query None None (Some ''abc'') None) = Inr []"
  by (simp add: get_stores_def Let_def sample_query_parts or_else_simps parseFloat_0 parseFloat_abc
      limit_of_cases lower_200 parseInt10_200 nearby_def sample_store_def haversineMeters_origin
      array_sort_def slice0_def)

lemma sample_eval_lat_abc:
  "get_stores [sample_store ''a'' 0 0] (sample_query (Some ''abc'') None None None) =
     Inl (E400 ''lat and lng are required numbers'')"
  by (simp add: sample_eval_default or_else_simps parseFloat_abc)

subsection \<open>Order and radius of the answer\<close>

text \<open>
  Claim C2. Whenever the store query answers with a list (the origin parsed to finite
  numbers), for every store collection and every radius the list is sorted non-decreasing
  by distance, every element's distance is at most \<open>radiusMeters\<close>, and the distance of
  an element is the one computed by \<open>haversineMeters\<close> from the origin to its store.
\<close>

theorem get_stores_sorted_within_radius:
  assumes "get_stores ss q = Inr res"
  shows "sorted_wrt (\<lambda>a b. js_le (distance_m a) (distance_m b)) res \<and>
         (\<forall>x\<in>set res. js_le (distance_m x) (radiusMeters_of q)) \<and>
         (\<forall>x\<in>set res. distance_m x =
            haversineMeters (lat_of q) (lng_of q) (latitude (base x)) (longitude (base x)))"
proof -
  from assms have res: "res = nearby ss (lat_of q) (lng_of q) (radiusMeters_of q)
      (healthyOnly_of q) (storeType_of q) (limit_of q)"
    by (auto simp: get_stores_def Let_def split: if_splits)
  show ?thesis unfolding res using nearby_sorted nearby_set by blast
qed

theorem get_stores_sorted_within_radius_witness:
  "get_stores [sample_store ''far'' 0 180, sample_store ''near'' 0 0]
     (sample_query (Some ''0'') (Some ''0'') (Some ''30000000'') None) =
   Inr [\<lparr>base = sample_store ''near'' 0 0, distance_m = Fin 0\<rparr>,
        \<lparr>base = sample_store ''far'' 0 180, distance_m = Fin (6371000 * pi)\<rparr>] \<and>
   sorted_wrt (\<lambda>a b. js_le (distance_m a) (distance_m b))
     [\<lparr>base = sample_store ''near'' 0 0, distance_m = Fin 0\<rparr>,
      \<lparr>base = sample_store ''far'' 0 180, distance_m = Fin (6371000 * pi)\<rparr>] \<and>
   js_le (Fin (6371000 * pi))
     (radiusMeters_of (sample_query (Some ''0'') (Some ''0'') (Some ''30000000'') None))"
proof -
  note e = sample_eval_far_near
  note t = get_stores_sorted_within_radius [OF e]
  from t have s: "sorted_wrt (\<lambda>a b. js_le (distance_m a) (distance_m b))
     [\<lparr>base = sample_store ''near'' 0 0, distance_m = Fin 0\<rparr>,
      \<lparr>base = sample_store ''far'' 0 180, distance_m = Fin (6371000 * pi)\<rparr>]"
    by (rule conjunct1)
  from t have "\<forall>x\<in>set [\<lparr>base = sample_store ''near'' 0 0, distance_m = Fin 0\<rparr>,
      \<lparr>base = sample_store ''far'' 0 180, distance_m = Fin (6371000 * pi)\<rparr>].
      js_le (distance_m x)
        (radiusMeters_of (sample_query (Some ''0'') (Some ''0'') (Some ''30000000'') None))"
    by (rule conjunct2 [THEN conjunct1])
  then have r: "js_le (Fin (6371000 * pi))
     (radiusMeters_of (sample_query (Some ''0'') (Some ''0'') (Some ''30000000'') None))"
    by simp
  from e s r show ?thesis by (intro conjI)
qed

subsection \<open>The limit\<close>

text \<open>
  Claim C4. The answer never has more elements than the limit parsed from the request,
  whenever the limit is not the sentinel \<open>unlimited\<close>; and a limit that is not the
  sentinel and parses to no finite number, to zero or to a negative number makes the
  effective limit the default 200, which caps the answer.
\<close>

theorem get_stores_limit:
  assumes "get_stores ss q = Inr res"
  shows "(toLowerCase (rawLimit_of q) \<noteq> ''unlimited'' \<longrightarrow>
            (\<forall>n. parseInt10 (rawLimit_of q) = Fin n \<and> 0 < n \<longrightarrow>
               limit_of q = Fin n \<and> real (length res) \<le> n)) \<and>
         (toLowerCase (rawLimit_of q) \<noteq> ''unlimited'' \<and>
            (\<not> isFinite (parseInt10 (rawLimit_of q)) \<or> js_le (parseInt10 (rawLimit_of q)) (Fin 0)) \<longrightarrow>
            limit_of q = Fin 200 \<and> length res \<le> 200)"
proof -
  note res = get_stores_Inr [OF assms]
  have len: "real (length res) \<le> n" if "limit_of q = Fin n" "0 < n" for n
    unfolding res using that nearby_length by simp
  have a: "limit_of q = Fin n \<and> real (length res) \<le> n"
    if "toLowerCase (rawLimit_of q) \<noteq> ''unlimited''" "parseInt10 (rawLimit_of q) = Fin n" "0 < n" for n
  proof -
    have "limit_of q = Fin n" using that by (simp add: limit_of_cases)
    then show ?thesis using len that(3) by simp
  qed
  have b: "limit_of q = Fin 200 \<and> length res \<le> 200"
    if "toLowerCase (rawLimit_of q) \<noteq> ''unlimited''"
       "\<not> isFinite (parseInt10 (rawLimit_of q)) \<or> js_le (parseInt10 (rawLimit_of q)) (Fin 0)"
  proof -
    have l: "limit_of q = Fin 200"
      using that by (cases "parseInt10 (rawLimit_of q)") (auto simp: limit_of_cases)
    have "real (length res) \<le> 200" using len [OF l] by simp
    then show ?thesis using l by simp
  qed
  show ?thesis using a b by blast
qed

theorem get_stores_limit_witness:
  "get_stores [sample_store ''a'' 0 0, sample_store ''b'' 0 0] (sample_query None None None (Some ''1'')) =
     Inr [\<lparr>base = sample_store ''a'' 0 0, distance_m = Fin 0\<rparr>] \<and>
   toLowerCase (rawLimit_of (sample_query None None None (Some ''1''))) \<noteq> ''unlimited'' \<and>
   parseInt10 (rawLimit_of (sample_query None None None (Some ''1''))) = Fin 1 \<and>
   limit_of (sample_query None None None (Some ''1'')) = Fin 1 \<and>
   real (length [\<lparr>base = sample_store ''a'' 0 0, distance_m = Fin 0\<rparr>]) \<le> 1 \<and>
   get_stores [sample_store ''a'' 0 0, sample_store ''b'' 0 0] (sample_query None None None (Some ''abc'')) =
     Inr [\<lparr>base = sample_store ''a'' 0 0, distance_m = Fin 0\<rparr>,
          \<lparr>base = sample_store ''b'' 0 0, distance_m = Fin 0\<rparr>] \<and>
   toLowerCase (rawLimit_of (sample_query None None None (Some ''abc''))) \<noteq> ''unlimited'' \<and>
   \<not> isFinite (parseInt10 (rawLimit_of (sample_query None None None (Some ''abc'')))) \<and>
   limit_of (sample_query None None None (Some ''abc'')) = Fin 200 \<and>
   length [\<lparr>base = sample_store ''a'' 0 0, distance_m = Fin 0\<rparr>,
           \<lparr>base = sample_store ''b'' 0 0, distance_m = Fin 0\<rparr>] \<le> 200"
proof -
  have h1: "toLowerCase (rawLimit_of (sample_query None None None (Some ''1''))) \<noteq> ''unlimited''"
    by (simp add: sample_query_parts or_else_simps lower_1)
  have p1: "parseInt10 (rawLimit_of (sample_query None None None (Some ''1''))) = Fin 1"
    by (simp add: sample_query_parts or_else_simps parseInt10_1)
  have h2: "toLowerCase (rawLimit_of (sample_query None None None (Some ''abc''))) \<noteq> ''unlimited''"
    by (simp add: sample_query_parts or_else_simps lower_abc)
  have p2: "\<not> isFinite (parseInt10 (rawLimit_of (sample_query None None None (Some ''abc''))))"
    by (simp add: sample_query_parts or_else_simps parseInt10_abc)
  from get_stores_limit [OF sample_eval_limit_1] h1 p1
  have a: "limit_of (sample_query None None None (Some ''1'')) = Fin 1 \<and>
      real (length [\<lparr>base = sample_store ''a'' 0 0, distance_m = Fin 0\<rparr>]) \<le> 1"
    by (metis zero_less_one)
  from get_stores_limit [OF sample_eval_limit_abc] h2 p2
  have b: "limit_of (sample_query None None None (Some ''abc'')) = Fin 200 \<and>
      length [\<lparr>base = sample_store ''a'' 0 0, distance_m = Fin 0\<rparr>,
           \<lparr>base = sample_store ''b'' 0 0, distance_m = Fin 0\<rparr>] \<le> 200"
    by blast
  from sample_eval_limit_1 sample_eval_limit_abc h1 p1 h2 p2 a b show ?thesis by (intro conjI) (elim conjE; assumption)+
qed

text \<open>
  The sentinel itself does not lift the cap: the infinite limit it stands for is not
  finite, so the fallback of line 217 replaces it by 200 as well.
\<close>

lemma limit_of_unlimited: "toLowerCase (rawLimit_of q) = ''unlimited'' \<Longrightarrow> limit_of q = Fin 200"
  by (simp add: limit_of_cases)

lemma limit_of_unlimited_sample: "limit_of (sample_query None None None (Some ''Unlimited'')) = Fin 200"
  by (simp add: limit_of_unlimited sample_query_parts or_else_simps lower_unlimited)

subsection \<open>The radius\<close>

text \<open>
  Claim C7, as stated, fails: a radius that does not parse is not replaced by the default.
  With one store at the origin, the radius \<open>abc\<close> parses to NaN and the answer is empty,
  while the same request without a radius returns the store; the radius \<open>-5\<close> stays \<open>-5\<close>.
\<close>

theorem radius_unparsable_counterexample:
  "radiusMeters_of (sample_query None None (Some ''abc'') None) = NaN \<and>
   get_stores [sample_store ''a'' 0 0] (sample_query None None (Some ''abc'') None) = Inr [] \<and>
   get_stores [sample_store ''a'' 0 0] (sample_query None None None None) =
     Inr [\<lparr>base = sample_store ''a'' 0 0, distance_m = Fin 0\<rparr>] \<and>
   radiusMeters_of (sample_query None None (Some ''-5'') None) = Fin (- 5)"
  by (simp add: sample_eval_radius_abc sample_eval_no_radius sample_query_parts or_else_simps
      parseFloat_abc parseFloat_minus5)

text \<open>
  Claim C7, amended. The effective \<open>radiusMeters\<close> is the default 1609 whenever the radius
  parameter is absent or empty. A radius that is supplied and not empty is used as
  \<open>parseFloat\<close> returns it, without a fallback; when it parses to NaN no store passes the
  radius test and the answer is the empty list.
\<close>

theorem radiusMeters_default:
  "(q_radius q = None \<or> q_radius q = Some [] \<longrightarrow> radiusMeters_of q = Fin 1609) \<and>
   (\<forall>v. q_radius q = Some v \<and> v \<noteq> [] \<longrightarrow> radiusMeters_of q = parseFloat v) \<and>
   (\<forall>ss res. radiusMeters_of q = NaN \<and> get_stores ss q = Inr res \<longrightarrow> res = [])"
proof -
  have a: "q_radius q = None \<or> q_radius q = Some [] \<longrightarrow> radiusMeters_of q = Fin 1609"
    by (auto simp: radiusMeters_of_def or_else_simps parseFloat_1609)
  have b: "\<forall>v. q_radius q = Some v \<and> v \<noteq> [] \<longrightarrow> radiusMeters_of q = parseFloat v"
    by (simp add: radiusMeters_of_def or_else_simps)
  have c: "res = []" if n: "radiusMeters_of q = NaN" and g: "get_stores ss q = Inr res" for ss res
  proof (rule ccontr)
    assume "res \<noteq> []"
    then obtain x where "x \<in> set res" by (cases res) auto
    then have "js_le (distance_m x) (radiusMeters_of q)"
      unfolding get_stores_Inr [OF g] by (blast dest: nearby_set)
    then show False by (simp add: n js_le_NaN_right)
  qed
  from a b c show ?thesis by blast
qed

theorem radiusMeters_default_witness:
  "q_radius (sample_query None None None None) = None \<and>
   radiusMeters_of (sample_query None None None None) = Fin 1609 \<and>
   q_radius (sample_query None None (Some ''-5'') None) = Some ''-5'' \<and>
   radiusMeters_of (sample_query None None (Some ''-5'') None) = parseFloat ''-5'' \<and>
   radiusMeters_of (sample_query None None (Some ''abc'') None) = NaN \<and>
   get_stores [sample_store ''a'' 0 0] (sample_query None None (Some ''abc'') None) = Inr []"
proof -
  have h1: "q_radius (sample_query None None None None) = None"
    and h2: "q_radius (sample_query None None (Some ''-5'') None) = Some ''-5''"
    by (simp_all add: sample_query_def)
  have h3: "radiusMeters_of (sample_query None None (Some ''abc'') None) = NaN"
    by (simp add: sample_query_parts or_else_simps parseFloat_abc)
  have n5: "''-5'' \<noteq> []" by simp
  from radiusMeters_default [of "sample_query None None None None"] h1
  have a: "radiusMeters_of (sample_query None None None None) = Fin 1609" by blast
  from radiusMeters_default [of "sample_query None None (Some ''-5'') None"] h2 n5
  have b: "radiusMeters_of (sample_query None None (Some ''-5'') None) = parseFloat ''-5''" by blast
  from radiusMeters_default [of "sample_query None None (Some ''abc'') None"] h3 sample_eval_radius_abc
  have c: "get_stores [sample_store ''a'' 0 0] (sample_query None None (Some ''abc'') None) = Inr []"
    by blast
  from h1 h2 h3 a b c show ?thesis by (intro conjI)
qed

subsection \<open>The origin\<close>

text \<open>
  Claim C10. A coordinate parameter that is absent defaults to the string \<open>0\<close>, which
  parses to the finite number 0; with both absent the query does not fail and proceeds
  with the origin (0, 0). The request is rejected only when a supplied, non-empty
  \<open>lat\<close> or \<open>lng\<close> parses to a number that is not finite.
\<close>

theorem get_stores_absent_origin:
  "(q_lat q = None \<longrightarrow> lat_of q = Fin 0) \<and>
   (q_lng q = None \<longrightarrow> lng_of q = Fin 0) \<and>
   (q_lat q = None \<and> q_lng q = None \<longrightarrow>
      get_stores ss q =
        Inr (nearby ss (Fin 0) (Fin 0) (radiusMeters_of q) (healthyOnly_of q) (storeType_of q)
               (limit_of q))) \<and>
   (\<forall>e. get_stores ss q = Inl e \<longrightarrow>
      (\<exists>v. (q_lat q = Some v \<or> q_lng q = Some v) \<and> v \<noteq> [] \<and> \<not> isFinite (parseFloat v)))"
proof -
  have a: "q_lat q = None \<longrightarrow> lat_of q = Fin 0"
    by (simp add: lat_of_def or_else_simps parseFloat_0)
  have b: "q_lng q = None \<longrightarrow> lng_of q = Fin 0"
    by (simp add: lng_of_def or_else_simps parseFloat_0)
  have c: "q_lat q = None \<and> q_lng q = None \<longrightarrow>
      get_stores ss q =
        Inr (nearby ss (Fin 0) (Fin 0) (radiusMeters_of q) (healthyOnly_of q) (storeType_of q)
               (limit_of q))"
    using a b by (simp add: get_stores_def Let_def)
  have lat: "\<exists>v. q_lat q = Some v \<and> v \<noteq> [] \<and> \<not> isFinite (parseFloat v)" if "\<not> isFinite (lat_of q)"
    using that by (cases "q_lat q") (auto simp: lat_of_def or_else_def parseFloat_0 split: if_splits)
  have lng: "\<exists>v. q_lng q = Some v \<and> v \<noteq> [] \<and> \<not> isFinite (parseFloat v)" if "\<not> isFinite (lng_of q)"
    using that by (cases "q_lng q") (auto simp: lng_of_def or_else_def parseFloat_0 split: if_splits)
  have d: "\<exists>v. (q_lat q = Some v \<or> q_lng q = Some v) \<and> v \<noteq> [] \<and> \<not> isFinite (parseFloat v)"
    if "get_stores ss q = Inl e" for e
  proof -
    from that have "\<not> isFinite (lat_of q) \<or> \<not> isFinite (lng_of q)"
      by (auto simp: get_stores_def Let_def split: if_splits)
    then show ?thesis using lat lng by blast
  qed
  from a b c d show ?thesis by blast
qed

theorem get_stores_absent_origin_witness:
  "q_lat (sample_query None None None None) = None \<and>
   q_lng (sample_query None None None None) = None \<and>
   lat_of (sample_query None None None None) = Fin 0 \<and>
   lng_of (sample_query None None None None) = Fin 0 \<and>
   get_stores [sample_store ''a'' 0 0] (sample_query None None None None) =
     Inr [\<lparr>base = sample_store ''a'' 0 0, distance_m = Fin 0\<rparr>] \<and>
   get_stores [sample_store ''a'' 0 0] (sample_query (Some ''abc'') None None None) =
     Inl (E400 ''lat and lng are required numbers'') \<and>
   q_lat (sample_query (Some ''abc'') None None None) = Some ''abc'' \<and>
   \<not> isFinite (parseFloat ''abc'')"
proof -
  have h: "q_lat (sample_query None None None None) = None"
    "q_lng (sample_query None None None None) = None"
    "q_lat (sample_query (Some ''abc'') None None None) = Some ''abc''"
    "q_lng (sample_query (Some ''abc'') None None None) = None"
    by (simp_all add: sample_query_def)
  note t = get_stores_absent_origin [of "sample_query None None None None" "[sample_store ''a'' 0 0]"]
  from t h have a: "lat_of (sample_query None None None None) = Fin 0"
    and b: "lng_of (sample_query None None None None) = Fin 0" by blast+
  from get_stores_absent_origin [of "sample_query (Some ''abc'') None None None" "[sample_store ''a'' 0 0]"]
    sample_eval_lat_abc
  have "\<exists>v. (q_lat (sample_query (Some ''abc'') None None None) = Some v \<or>
             q_lng (sample_query (Some ''abc'') None None None) = Some v) \<and>
            v \<noteq> [] \<and> \<not> isFinite (parseFloat v)"
    by blast
  then have c: "\<not> isFinite (parseFloat ''abc'')" using h by auto
  from h a b c sample_eval_no_radius sample_eval_lat_abc show ?thesis by (intro conjI)
qed

text \<open>
  Claim C1, at an input where the code departs from it. A request whose \<open>lat\<close> and
  \<open>lng\<close> are present but empty (\<open>/stores?lat=&lng=\<close>) carries an origin that does not
  parse to a number, yet it is not rejected: each empty value is replaced by \<open>0\<close> and
  the store at (0, 0) is returned at distance 0.
\<close>

theorem get_stores_empty_origin:
  "get_stores [sample_store ''a'' 0 0] (sample_query (Some []) (Some []) None None) =
     Inr [\<lparr>base = sample_store ''a'' 0 0, distance_m = Fin 0\<rparr>]"
  by (simp add: sample_eval_default or_else_simps parseFloat_0 nearby_one_origin)

theorem get_stores_empty_origin_witness:
  "parseFloat [] = NaN \<and>
   get_stores [sample_store ''a'' 0 0] (sample_query (Some []) (Some []) None None) \<noteq>
     Inl (E400 ''lat and lng are required numbers'')"
  using get_stores_empty_origin by (simp add: parseFloat_def trimStart_def)

section \<open>Loading the stores\<close>

lemma on_data_coords:
  "map (\<lambda>s. (latitude s, longitude s)) (on_data row acc) =
   map (\<lambda>s. (latitude s, longitude s)) acc @
   filter (\<lambda>(la, lo). isFinite la \<and> isFinite lo)
     [(parseFloat (js_String (row ''Latitude'')), parseFloat (js_String (row ''Longitude'')))]"
  by (simp add: on_data_def Let_def)

lemma fold_on_data_coords:
  "map (\<lambda>s. (latitude s, longitude s)) (foldl (\<lambda>results row. on_data row results) acc rows) =
   map (\<lambda>s. (latitude s, longitude s)) acc @
   filter (\<lambda>(la, lo). isFinite la \<and> isFinite lo)
     (map (\<lambda>row. (parseFloat (js_String (row ''Latitude'')),
                   parseFloat (js_String (row ''Longitude'')))) rows)"
proof (induction rows arbitrary: acc)
  case Nil
  then show ?case by simp
next
  case (Cons row rows)
  show ?case
    unfolding foldl_Cons Cons.IH on_data_coords by simp
qed

text \<open>
  Claim C8. Every record of the store collection set up at startup has a finite latitude
  and a finite longitude. The records are, in order, the rows whose \<open>Latitude\<close> and
  \<open>Longitude\<close> both parse to finite numbers: a row is dropped exactly when one of the two
  does not, whatever its other fields hold or lack.
\<close>

theorem start_stores_finite_coordinates:
  assumes "start rows fin = Some srv"
  shows "(\<forall>s\<in>set (stores srv). isFinite (latitude s) \<and> isFinite (longitude s)) \<and>
         map (\<lambda>s. (latitude s, longitude s)) (stores srv) =
           filter (\<lambda>(la, lo). isFinite la \<and> isFinite lo)
             (map (\<lambda>row. (parseFloat (js_String (row ''Latitude'')),
                           parseFloat (js_String (row ''Longitude'')))) rows)"
proof -
  from assms have st: "stores srv = foldl (\<lambda>results row. on_data row results) [] rows"
    by (auto simp: start_def loadStoresFromCsv_def split: stream_end.splits promise.splits)
  have m: "map (\<lambda>s. (latitude s, longitude s)) (stores srv) =
           filter (\<lambda>(la, lo). isFinite la \<and> isFinite lo)
             (map (\<lambda>row. (parseFloat (js_String (row ''Latitude'')),
                           parseFloat (js_String (row ''Longitude'')))) rows)"
    unfolding st fold_on_data_coords by simp
  have "isFinite (latitude s) \<and> isFinite (longitude s)" if "s \<in> set (stores srv)" for s
  proof -
    from that have "(latitude s, longitude s) \<in> set (map (\<lambda>s. (latitude s, longitude s)) (stores srv))"
      by (simp only: set_map) (rule imageI)
    then show ?thesis unfolding m by simp
  qed
  with m show ?thesis by blast
qed

lemma sample_rows_loaded:
  "start [[''Latitude'' \<mapsto> ''40.7'', ''Longitude'' \<mapsto> ''-73.9''],
          [''Latitude'' \<mapsto> ''abc'', ''Longitude'' \<mapsto> ''-73.9'', ''Store_Name'' \<mapsto> ''Deli''],
          [''Store_Name'' \<mapsto> ''Deli'', ''Longitude'' \<mapsto> ''-73.9'']] End =
   Some \<lparr>stores = [sample_store [] 40.7 (- 73.9)],
         zipCentroids = centroid_of [sample_store [] 40.7 (- 73.9)],
         nycZipCache = None\<rparr>"
  by (simp add: start_def loadStoresFromCsv_def on_data_def Let_def js_String_def parseFloat_lat
      parseFloat_lon parseFloat_abc parseFloat_undefined sample_store_def or_else_simps toUpperCase_def
      toZip5_def parseBoolean_def trim_def toLowerCase_def)

theorem start_stores_finite_coordinates_witness:
  "start [[''Latitude'' \<mapsto> ''40.7'', ''Longitude'' \<mapsto> ''-73.9''],
          [''Latitude'' \<mapsto> ''abc'', ''Longitude'' \<mapsto> ''-73.9'', ''Store_Name'' \<mapsto> ''Deli''],
          [''Store_Name'' \<mapsto> ''Deli'', ''Longitude'' \<mapsto> ''-73.9'']] End =
   Some \<lparr>stores = [sample_store [] 40.7 (- 73.9)],
         zipCentroids = centroid_of [sample_store [] 40.7 (- 73.9)],
         nycZipCache = None\<rparr> \<and>
   isFinite (latitude (sample_store [] 40.7 (- 73.9))) \<and>
   isFinite (longitude (sample_store [] 40.7 (- 73.9)))"
  using start_stores_finite_coordinates [OF sample_rows_loaded] sample_rows_loaded
  by simp

section \<open>ZIP normalization\<close>

lemma toZip5_Some:
  "toZip5 (Some s) =
     replicate (5 - length (take 5 (filter is_digit s))) CHR ''0'' @ take 5 (filter is_digit s)"
  by (simp add: toZip5_def Let_def)

lemma length_toZip5: "length (toZip5 (Some s)) = 5"
  by (simp add: toZip5_Some)

lemma toZip5_empty_iff: "toZip5 p = [] \<longleftrightarrow> p = None"
proof (cases p)
  case None
  then show ?thesis by (simp add: toZip5_def)
next
  case (Some s)
  have "length (toZip5 (Some s)) \<noteq> 0" by (simp add: length_toZip5)
  then show ?thesis using Some by auto
qed

lemma toZip5_idempotent:
  assumes "length z = 5" and "\<forall>c\<in>set z. is_digit c"
  shows "toZip5 (Some z) = z"
proof -
  have "filter is_digit z = z" using assms(2) by (simp add: filter_id_conv)
  then show ?thesis using assms(1) by (simp add: toZip5_Some)
qed

lemma toZip5_123: "toZip5 (Some ''123'') = ''00123''"
  by code_simp

lemma toZip5_10001: "toZip5 (Some ''10001'') = ''10001''"
  by code_simp

text \<open>
  Claim C5, at the input where the code departs from it: the empty string, and any string
  without a digit, is padded to \<open>00000\<close>; only \<open>null\<close> and \<open>undefined\<close> give the
  empty string.
\<close>

theorem toZip5_empty_string:
  "toZip5 (Some []) = ''00000'' \<and> toZip5 (Some ''abc'') = ''00000'' \<and> toZip5 None = []"
  by code_simp

section \<open>Outcomes of the ZIP lookup\<close>

lemma get_zip_cases:
  "fst (get_zip w s p) =
     (if toZip5 p = [] then Inl (E400 ''Invalid ZIP'')
      else case zipCentroids s (toZip5 p) of
             Some c \<Rightarrow> Inr c
           | None \<Rightarrow>
               (case fst (second_try w s (toZip5 p)) of
                  Rejected \<Rightarrow> Inl (E500 ''ZIP lookup failed'')
                | Resolved (Some c) \<Rightarrow> Inr c
                | Resolved None \<Rightarrow>
                    (case third_try w (toZip5 p) of
                       Some c \<Rightarrow> Inr c
                     | None \<Rightarrow>
                         (case fourth_try w (toZip5 p) of
                            Some c \<Rightarrow> Inr c
                          | None \<Rightarrow> Inl (E404 ''ZIP not found'')))))"
proof -
  obtain pr s1 where st: "second_try w s (toZip5 p) = (pr, s1)"
    by (cases "second_try w s (toZip5 p)")
  show ?thesis
    by (cases pr) (auto simp: get_zip_def Let_def st split: option.splits)
qed

text \<open>
  Claim C3. When the normalized ZIP is a key of the centroid index, the lookup answers
  with the stored coordinate, fetches no URL and leaves the state, the index included,
  as it was.
\<close>

theorem get_zip_centroid_hit:
  assumes "zipCentroids s (toZip5 (Some z)) = Some c"
  shows "get_zip w s (Some z) = (Inr c, s, [])"
  using assms by (simp add: get_zip_def Let_def toZip5_empty_iff)

theorem get_zip_centroid_hit_witness:
  "zipCentroids (sample_server [''10001'' \<mapsto> \<lparr>latitude = Fin 40.75, longitude = Fin (- 73.99)\<rparr>])
     (toZip5 (Some ''10001'')) = Some \<lparr>latitude = Fin 40.75, longitude = Fin (- 73.99)\<rparr> \<and>
   get_zip (sample_world ParseError)
     (sample_server [''10001'' \<mapsto> \<lparr>latitude = Fin 40.75, longitude = Fin (- 73.99)\<rparr>])
     (Some ''10001'') =
   (Inr \<lparr>latitude = Fin 40.75, longitude = Fin (- 73.99)\<rparr>,
    sample_server [''10001'' \<mapsto> \<lparr>latitude = Fin 40.75, longitude = Fin (- 73.99)\<rparr>], [])"
proof -
  have h: "zipCentroids (sample_server [''10001'' \<mapsto> \<lparr>latitude = Fin 40.75, longitude = Fin (- 73.99)\<rparr>])
     (toZip5 (Some ''10001'')) = Some \<lparr>latitude = Fin 40.75, longitude = Fin (- 73.99)\<rparr>"
    by (simp add: sample_server_def toZip5_10001)
  from h get_zip_centroid_hit [OF h] show ?thesis by (intro conjI)
qed


text \<open>
  A second departure, in the regional tier: a row of the table that has the ZIP but no
  borough makes \<open>borough.toUpperCase()\<close> throw before the fallback to Manhattan is
  reached, and the answer is the error 500 of the outer \<open>catch\<close>.
\<close>

lemma get_zip_row_without_borough:
  "fst (get_zip (sample_world (CsvRows [\<lparr>nz_zip = Some ''10001'', nz_borough = None\<rparr>]))
          (sample_server Map.empty) (Some ''10001'')) = Inl (E500 ''ZIP lookup failed'')"
  by (simp add: get_zip_cases toZip5_10001 sample_server_def sample_world_def second_try_def
      loadNYCZips_def fromEntries_def js_String_def)

end
